theory Spec2Isabelle
  imports Complex_Main
begin

section \<open>The batch worker of the WOFOST farm simulator\<close>

text \<open>
  This theory embeds \<^verbatim>\<open>SimulationWorker.run\<close> of
  \<^verbatim>\<open>src/app/simulation/worker.py\<close>. The crop-growth engine, the weather provider and
  the crop-data provider are external collaborators: they enter as function parameters
  whose result \<open>None\<close> stands for a raised exception. Python floats are idealised as
  reals. Calendar dates are represented by their proleptic Gregorian ordinal, as
  \<^verbatim>\<open>datetime.date.toordinal\<close> gives it.
\<close>

subsection \<open>Exceptions\<close>

datatype py_error = KeyError | ZeroDivisionError | OverflowError | ExternalError | PCSEError

subsection \<open>Dates (the part of \<^verbatim>\<open>datetime\<close> the worker uses)\<close>

definition is_leap :: "int \<Rightarrow> bool" where
  "is_leap y = (y mod 4 = 0 \<and> (y mod 100 \<noteq> 0 \<or> y mod 400 = 0))"

definition days_before_year :: "int \<Rightarrow> int" where
  "days_before_year year = (let y = year - 1 in y * 365 + y div 4 - y div 100 + y div 400)"

definition DAYS_BEFORE_MONTH :: "int list" where
  "DAYS_BEFORE_MONTH = [0, 31, 59, 90, 120, 151, 181, 212, 243, 273, 304, 334]"

text \<open>The month of a \<^verbatim>\<open>date\<close> lies between 1 and 12, so the table lookup is in
  range.\<close>

definition days_before_month :: "int \<Rightarrow> nat \<Rightarrow> int" where
  "days_before_month year month =
     DAYS_BEFORE_MONTH ! (month - 1) + (if month > 2 \<and> is_leap year then 1 else 0)"

definition ymd2ord :: "int \<Rightarrow> nat \<Rightarrow> nat \<Rightarrow> int" where
  "ymd2ord year month dayno = days_before_year year + days_before_month year month + int dayno"

definition MAXORDINAL :: int where
  "MAXORDINAL = 3652059"

text \<open>\<^verbatim>\<open>date + timedelta(days=n)\<close>: the sum of the ordinals, or OverflowError outside
  the range of \<^verbatim>\<open>date\<close>.\<close>

definition date_add :: "int \<Rightarrow> int \<Rightarrow> py_error + int" where
  "date_add d n = (let ord = d + n in
     if 0 < ord \<and> ord \<le> MAXORDINAL then Inr ord else Inl OverflowError)"

subsection \<open>Configuration data\<close>

text \<open>The entries of \<^verbatim>\<open>CROP_OPTIONS\<close> (\<^verbatim>\<open>src/app/config/crops.py\<close>), with the
  fields the worker reads; a missing \<^verbatim>\<open>needs_vern_override\<close> key reads as false.\<close>

record crop_config =
  variety :: string
  season_days :: int
  needs_vern_override :: bool

definition CROP_OPTIONS :: "(string \<times> crop_config) list" where
  "CROP_OPTIONS =
    [(''barley'', \<lparr>variety = ''Spring_barley_301'', season_days = 120, needs_vern_override = False\<rparr>),
     (''wheat'', \<lparr>variety = ''Winter_wheat_101'', season_days = 150, needs_vern_override = True\<rparr>),
     (''potato'', \<lparr>variety = ''Potato_701'', season_days = 120, needs_vern_override = False\<rparr>),
     (''cassava'', \<lparr>variety = ''Cassava_VanHeemst_1988'', season_days = 300, needs_vern_override = False\<rparr>),
     (''sweetpotato'', \<lparr>variety = ''Sweetpotato_VanHeemst_1988'', season_days = 150, needs_vern_override = False\<rparr>)]"

text \<open>A fertilizer scenario: \<open>applications\<close> are triples (days after planting, amount,
  recovery); \<open>enabled\<close> is \<open>None\<close> when the key is absent.\<close>

record scenario =
  name :: string
  total_n :: real
  applications :: "(int \<times> real \<times> real) list"
  enabled :: "bool option"

text \<open>\<^verbatim>\<open>scenario.get("enabled", True)\<close>\<close>

definition is_enabled :: "scenario \<Rightarrow> bool" where
  "is_enabled s = (case enabled s of None \<Rightarrow> True | Some b \<Rightarrow> b)"

subsection \<open>Agromanagement\<close>

record timed_event =
  event_signal :: string
  event_name :: string
  events_table :: "(int \<times> real \<times> real) list"

record crop_calendar =
  crop_name :: string
  variety_name :: string
  crop_start_date :: int
  crop_start_type :: string
  crop_end_date :: int
  crop_end_type :: string
  max_duration :: int

record agromanagement =
  campaign_start :: int
  CropCalendar :: crop_calendar
  TimedEvents :: "timed_event list option"
  StateEvents :: "unit option"

text \<open>Decimal rendering of a natural number, as an f-string does.\<close>

fun str_nat :: "nat \<Rightarrow> string" where
  "str_nat n = (if n < 10 then [''0123456789'' ! n]
                else str_nat (n div 10) @ [''0123456789'' ! (n mod 10)])"

declare str_nat.simps [simp del]

text \<open>One timed event, lines 93-107: the events table is a one-entry list mapping the
  application date to amount and recovery. The \<^verbatim>\<open>comment\<close> string, a rendering of the
  amount, is left out.\<close>

definition n_event :: "nat \<Rightarrow> int \<Rightarrow> real \<Rightarrow> real \<Rightarrow> timed_event" where
  "n_event i app_date amount recovery =
     \<lparr>event_signal = ''apply_n'',
      event_name = ''N application '' @ str_nat (i + 1),
      events_table = [(app_date, amount, recovery)]\<rparr>"

text \<open>The loop of lines 89-107 over \<^verbatim>\<open>enumerate(scenario["applications"])\<close>.\<close>

fun timed_events_loop ::
  "int \<Rightarrow> nat \<Rightarrow> (int \<times> real \<times> real) list \<Rightarrow> timed_event list \<Rightarrow> py_error + timed_event list" where
  "timed_events_loop planting_date i [] acc = Inr acc"
| "timed_events_loop planting_date i ((days, amount, recovery) # rest) acc =
     (case date_add planting_date days of
        Inl e \<Rightarrow> Inl e
      | Inr app_date \<Rightarrow>
          timed_events_loop planting_date (Suc i) rest (acc @ [n_event i app_date amount recovery]))"

text \<open>Lines 86-107: \<^verbatim>\<open>timed_events\<close> stays \<^verbatim>\<open>None\<close> for an empty application list.\<close>

definition build_timed_events ::
  "int \<Rightarrow> (int \<times> real \<times> real) list \<Rightarrow> py_error + timed_event list option" where
  "build_timed_events planting_date apps =
     (if apps = [] then Inr None
      else case timed_events_loop planting_date 0 apps [] of
             Inl e \<Rightarrow> Inl e
           | Inr evs \<Rightarrow> Inr (Some evs))"

text \<open>Lines 80-128: the agromanagement of one scenario.\<close>

definition build_agro ::
  "string \<Rightarrow> crop_config \<Rightarrow> int \<Rightarrow> int \<Rightarrow> scenario \<Rightarrow> py_error + agromanagement" where
  "build_agro crop cc planting_date end_date scn =
     (case build_timed_events planting_date (applications scn) of
        Inl e \<Rightarrow> Inl e
      | Inr timed_events \<Rightarrow>
          Inr \<lparr>campaign_start = planting_date,
               CropCalendar = \<lparr>crop_name = crop, variety_name = variety cc,
                                crop_start_date = planting_date, crop_start_type = ''emergence'',
                                crop_end_date = end_date, crop_end_type = ''earliest'',
                                max_duration = season_days cc\<rparr>,
               TimedEvents = timed_events,
               StateEvents = None\<rparr>)"

subsection \<open>Weather provider\<close>

record weather_sample =
  TMAX :: real
  TMIN :: real
  RAIN :: real
  IRRAD :: real

text \<open>The provider is called with a date; \<open>None\<close> is a raised exception.\<close>

type_synonym weather = "int \<Rightarrow> weather_sample option"

record weather_row =
  w_date :: int
  tmax :: real
  tmin :: real
  rain :: real
  radiation :: real

text \<open>Lines 48-61: one row per day of the year whose lookup succeeds.\<close>

definition weather_data_of :: "weather \<Rightarrow> int \<Rightarrow> weather_row list" where
  "weather_data_of weather year =
     List.map_filter
       (\<lambda>d. case weather d of
               None \<Rightarrow> None
             | Some w \<Rightarrow> Some \<lparr>w_date = d, tmax = TMAX w, tmin = TMIN w, rain = RAIN w,
                               radiation = IRRAD w / 1000000\<rparr>)
       [ymd2ord year 1 1 .. ymd2ord year 12 31]"

subsection \<open>Engine parameters\<close>

type_synonym pydict = "(string \<times> real) list"

text \<open>\<^verbatim>\<open>d.get(k, default)\<close>\<close>

definition dict_get :: "pydict \<Rightarrow> string \<Rightarrow> real \<Rightarrow> real" where
  "dict_get d k dflt = (case map_of d k of None \<Rightarrow> dflt | Some v \<Rightarrow> v)"

record parameters =
  cropdata :: pydict
  soildata :: pydict
  sitedata :: pydict
  overrides :: pydict

definition SOIL_KEYS :: "string list" where
  "SOIL_KEYS = [''SM0'', ''SMFCF'', ''SMW'', ''CRAIRC'', ''RDMSOL'', ''K0'', ''SOPE'', ''KSUB'']"

text \<open>Lines 135-152: each \<^verbatim>\<open>soil_params[k]\<close> raises KeyError on a missing key.\<close>

definition build_soildata :: "pydict \<Rightarrow> py_error + pydict" where
  "build_soildata soil_params =
     (if list_all (\<lambda>k. k \<in> set (map fst soil_params)) (SOIL_KEYS @ [''NSOILBASE''])
      then Inr (map (\<lambda>k. (k, the (map_of soil_params k))) SOIL_KEYS @
                [(''IFUNRN'', 0), (''SSMAX'', 0), (''SSI'', 0), (''WAV'', 50), (''NOTINF'', 0),
                 (''SMLIM'', the (map_of soil_params ''SMFCF'')),
                 (''NSOILBASE'', the (map_of soil_params ''NSOILBASE'')),
                 (''NSOILBASE_FR'', dict_get soil_params ''NSOILBASE_FR'' 0.025)])
      else Inl KeyError)"

definition sitedata_default :: pydict where
  "sitedata_default = [(''CO2'', 415), (''NAVAILI'', 20), (''BG_N_SUPPLY'', 0.5)]"

text \<open>\<^verbatim>\<open>params.set_override(varname, value)\<close> of pcse's \<^verbatim>\<open>ParameterProvider\<close>: the
  override is stored when the name is a parameter the provider already holds, and
  \<^verbatim>\<open>PCSEError\<close> is raised otherwise.\<close>

definition set_override :: "parameters \<Rightarrow> string \<Rightarrow> real \<Rightarrow> py_error + parameters" where
  "set_override params varname v =
     (if varname \<in> set (map fst (overrides params @ sitedata params @ soildata params @
                                  cropdata params))
      then Inr (params\<lparr>overrides := overrides params @ [(varname, v)]\<rparr>)
      else Inl PCSEError)"

text \<open>Lines 130-169. The crop-data provider (\<^verbatim>\<open>YAMLCropDataProvider\<close> with
  \<^verbatim>\<open>set_active_crop\<close>) is external and may raise; so may each of the three
  \<^verbatim>\<open>set_override\<close> calls of lines 166-169.\<close>

definition build_params ::
  "(string \<Rightarrow> string \<Rightarrow> pydict option) \<Rightarrow> string \<Rightarrow> crop_config \<Rightarrow> pydict \<Rightarrow> py_error + parameters" where
  "build_params crop_provider crop cc soil_params =
     (case crop_provider crop (variety cc) of
        None \<Rightarrow> Inl ExternalError
      | Some cropd \<Rightarrow>
          (case build_soildata soil_params of
             Inl e \<Rightarrow> Inl e
           | Inr soild \<Rightarrow>
               (let params = \<lparr>cropdata = cropd, soildata = soild, sitedata = sitedata_default,
                              overrides = []\<rparr> in
                if needs_vern_override cc
                then (case set_override params ''VERNSAT'' 0 of
                        Inl e \<Rightarrow> Inl e
                      | Inr params1 \<Rightarrow>
                          (case set_override params1 ''VERNBASE'' 0 of
                             Inl e \<Rightarrow> Inl e
                           | Inr params2 \<Rightarrow> set_override params2 ''VERNDVS'' 0))
                else Inr params)))"

subsection \<open>Engine output and results\<close>

record output_row =
  day :: int
  vars :: pydict

text \<open>The data frame of a run: the engine's rows and the two derived columns, absent
  until they are assigned.\<close>

record dataframe =
  rows :: "output_row list"
  GDD :: "real list option"
  daily_GDD :: "real list option"

text \<open>The engine \<^verbatim>\<open>Wofost81_NWLP_CWB_CNB\<close>: construction, \<^verbatim>\<open>run_till_terminate\<close>,
  \<^verbatim>\<open>get_output\<close> and \<^verbatim>\<open>get_summary_output\<close>; \<open>None\<close> when any of them raises. A
  summary of \<^verbatim>\<open>None\<close> is the empty list.\<close>

type_synonym engine =
  "parameters \<Rightarrow> weather \<Rightarrow> agromanagement \<Rightarrow> (output_row list \<times> pydict list) option"

record scenario_result =
  df :: dataframe
  summary :: pydict
  yield_kg :: real
  yield_t :: real
  scenario_name :: string
  scenario_key :: string
  n_rate :: real
  tagp :: real
  laimax :: real

definition ROOT_CROPS :: "string list" where
  "ROOT_CROPS = [''potato'', ''cassava'', ''sweetpotato'']"

text \<open>Lines 181-194.\<close>

definition main_yield :: "string \<Rightarrow> pydict \<Rightarrow> real" where
  "main_yield crop s =
     (let grain_yield = dict_get s ''TWSO'' 0 in
      if crop \<in> set ROOT_CROPS
      then (if grain_yield > 0 then grain_yield else dict_get s ''TAGP'' 0 * 0.5)
      else (if grain_yield > 0 then grain_yield else dict_get s ''TAGP'' 0 * 0.4))"

subsection \<open>Growing degree days\<close>

definition tbase :: real where
  "tbase = 0"

text \<open>Lines 202-217: the body of the \<^verbatim>\<open>try\<close> and its handler, which prints the
  exception and takes 0.\<close>

definition daily_gdd_of :: "weather \<Rightarrow> int \<Rightarrow> real" where
  "daily_gdd_of weather d =
     (case weather d of
        None \<Rightarrow> 0
      | Some wdata \<Rightarrow> max 0 ((TMAX wdata + TMIN wdata) / 2 - tbase))"

text \<open>Lines 201-221: the loop over \<^verbatim>\<open>df['day']\<close> with its three accumulators.\<close>

fun gdd_loop :: "weather \<Rightarrow> int list \<Rightarrow> real \<Rightarrow> real list \<Rightarrow> real list \<Rightarrow> real list \<times> real list" where
  "gdd_loop weather [] cumulative_gdd gdd_list daily_gdd_list = (gdd_list, daily_gdd_list)"
| "gdd_loop weather (d # ds) cumulative_gdd gdd_list daily_gdd_list =
     (let daily_gdd = daily_gdd_of weather d;
          cumulative_gdd' = cumulative_gdd + daily_gdd
      in gdd_loop weather ds cumulative_gdd' (gdd_list @ [cumulative_gdd'])
           (daily_gdd_list @ [daily_gdd]))"

text \<open>\<^verbatim>\<open>df['day']\<close>: a frame built from no rows has no columns, and the subscript
  raises KeyError.\<close>

definition day_column :: "dataframe \<Rightarrow> py_error + int list" where
  "day_column frame = (if rows frame = [] then Inl KeyError else Inr (map day (rows frame)))"

subsection \<open>One scenario\<close>

text \<open>Lines 172-238, the body of the per-scenario \<^verbatim>\<open>try\<close>: the result to append (if
  any) and the frame to store (if any), or the exception the handler of line 240
  receives. The GDD block and \<^verbatim>\<open>results.append\<close> are inside the \<^verbatim>\<open>else\<close> branch of
  the crop test, as in the source.\<close>

definition run_scenario ::
  "engine \<Rightarrow> weather \<Rightarrow> string \<Rightarrow> parameters \<Rightarrow> agromanagement \<Rightarrow> string \<Rightarrow> scenario \<Rightarrow>
     py_error + (scenario_result option \<times> dataframe option)" where
  "run_scenario eng weather crop params agro key scn =
     (case eng params weather agro of
        None \<Rightarrow> Inl ExternalError
      | Some (output, summ) \<Rightarrow>
          (let frame = \<lparr>rows = output, GDD = None, daily_GDD = None\<rparr> in
           case summ of
             [] \<Rightarrow> Inr (None, None)
           | s # _ \<Rightarrow>
               if crop \<in> set ROOT_CROPS then Inr (None, Some frame)
               else
                 (case day_column frame of
                    Inl e \<Rightarrow> Inl e
                  | Inr days \<Rightarrow>
                      (let (gdd_list, daily_gdd_list) = gdd_loop weather days 0 [] [];
                           frame' = frame\<lparr>GDD := Some gdd_list, daily_GDD := Some daily_gdd_list\<rparr>;
                           res = \<lparr>df = frame', summary = s,
                                  yield_kg = main_yield crop s,
                                  yield_t = main_yield crop s / 1000,
                                  scenario_name = name scn, scenario_key = key,
                                  n_rate = total_n scn,
                                  tagp = dict_get s ''TAGP'' 0,
                                  laimax = dict_get s ''LAIMAX'' 0\<rparr>
                       in Inr (Some res, Some frame')))))"

subsection \<open>The batch\<close>

text \<open>What the loop needs from the setup, and the external collaborators.\<close>

record env =
  env_crop :: string
  env_crop_config :: crop_config
  env_soil_params :: pydict
  env_weather :: weather
  env_planting_date :: int
  env_end_date :: int
  total_scenarios :: nat
  env_crop_provider :: "string \<Rightarrow> string \<Rightarrow> pydict option"
  env_engine :: engine

text \<open>The mutable state of the loop: \<^verbatim>\<open>results\<close>, \<^verbatim>\<open>dataframes\<close>, \<^verbatim>\<open>completed\<close>,
  the progress signals emitted so far, and the keys of the scenarios whose error message
  was printed by the handler of line 241.\<close>

record batch =
  results :: "scenario_result list"
  dataframes :: "string \<rightharpoonup> dataframe"
  completed :: nat
  emitted :: "(int \<times> string) list"
  printed :: "string list"

text \<open>Line 77: \<^verbatim>\<open>20 + int(70 * completed / total_scenarios)\<close>. The operands are
  non-negative, so truncation is the integer quotient; a zero divisor raises.\<close>

definition progress_pct :: "nat \<Rightarrow> nat \<Rightarrow> py_error + int" where
  "progress_pct done n_total =
     (if n_total = 0 then Inl ZeroDivisionError
      else Inr (20 + (70 * int done) div int n_total))"

text \<open>Lines 80-169, everything between the progress signal and the \<^verbatim>\<open>try\<close>: none of
  it is inside a handler of the loop.\<close>

definition build_inputs :: "env \<Rightarrow> scenario \<Rightarrow> py_error + (parameters \<times> agromanagement)" where
  "build_inputs ev scn =
     (case build_agro (env_crop ev) (env_crop_config ev) (env_planting_date ev) (env_end_date ev) scn of
        Inl e \<Rightarrow> Inl e
      | Inr agro \<Rightarrow>
          (case build_params (env_crop_provider ev) (env_crop ev) (env_crop_config ev)
                  (env_soil_params ev) of
             Inl e \<Rightarrow> Inl e
           | Inr params \<Rightarrow> Inr (params, agro)))"

text \<open>Lines 74-243, one iteration. The first component is the exception that leaves the
  loop, if any.\<close>

definition scenario_step :: "env \<Rightarrow> string \<times> scenario \<Rightarrow> batch \<Rightarrow> py_error option \<times> batch" where
  "scenario_step ev ks st =
     (let key = fst ks; scn = snd ks in
      if \<not> is_enabled scn then (None, st)
      else
        (case progress_pct (completed st) (total_scenarios ev) of
           Inl e \<Rightarrow> (Some e, st)
         | Inr pct \<Rightarrow>
             (let st1 = st\<lparr>emitted := emitted st @ [(pct, ''Running: '' @ name scn @ ''...'')]\<rparr> in
              case build_inputs ev scn of
                Inl e \<Rightarrow> (Some e, st1)
              | Inr (params, agro) \<Rightarrow>
                  (let st2 =
                     (case run_scenario (env_engine ev) (env_weather ev) (env_crop ev) params agro key scn of
                        Inl e \<Rightarrow> st1\<lparr>printed := printed st1 @ [key]\<rparr>
                      | Inr (res, frame) \<Rightarrow>
                          st1\<lparr>results := (case res of None \<Rightarrow> results st1
                                           | Some r \<Rightarrow> results st1 @ [r]),
                              dataframes := (case frame of None \<Rightarrow> dataframes st1
                                             | Some f \<Rightarrow> (dataframes st1)(name scn \<mapsto> f))\<rparr>)
                   in (None, st2\<lparr>completed := completed st2 + 1\<rparr>)))))"

text \<open>Lines 73-243: the loop over \<^verbatim>\<open>fert_scenarios.items()\<close>.\<close>

fun scenario_loop :: "env \<Rightarrow> (string \<times> scenario) list \<Rightarrow> batch \<Rightarrow> py_error option \<times> batch" where
  "scenario_loop ev [] st = (None, st)"
| "scenario_loop ev (ks # rest) st =
     (case scenario_step ev ks st of
        (Some e, st') \<Rightarrow> (Some e, st')
      | (None, st') \<Rightarrow> scenario_loop ev rest st')"

subsection \<open>The whole run\<close>

record location =
  loc_name :: string
  lat :: real
  lon :: real

record start_date =
  sd_year :: int
  sd_month :: nat
  sd_day :: nat

record config =
  crop :: string
  loc :: location
  soil_params :: pydict
  fert_scenarios :: "(string \<times> scenario) list"
  start :: start_date

record collaborators =
  weather_provider :: "real \<Rightarrow> real \<Rightarrow> weather option"
  crop_provider :: "string \<Rightarrow> string \<Rightarrow> pydict option"
  wofost :: engine

datatype outcome =
    Finished "scenario_result list" "string \<rightharpoonup> dataframe" "weather_row list" int string
  | Error py_error

record trace =
  signals :: "(int \<times> string) list"
  warnings :: "string list"
  final :: outcome

text \<open>Lines 32-38 and 68-70: what the loop reads from the configuration and the setup.\<close>

definition make_env :: "collaborators \<Rightarrow> config \<Rightarrow> crop_config \<Rightarrow> weather \<Rightarrow> env" where
  "make_env ext cfg cc weather =
     (let year = sd_year (start cfg) in
      \<lparr>env_crop = crop cfg, env_crop_config = cc,
       env_soil_params = soil_params cfg, env_weather = weather,
       env_planting_date = ymd2ord year (sd_month (start cfg)) (sd_day (start cfg)),
       env_end_date = ymd2ord year 12 31,
       total_scenarios = length (filter is_enabled (map snd (fert_scenarios cfg))),
       env_crop_provider = crop_provider ext,
       env_engine = wofost ext\<rparr>)"

text \<open>Lines 66-71: the state the loop starts from, after the two setup signals.\<close>

definition start_batch :: "config \<Rightarrow> batch" where
  "start_batch cfg =
     \<lparr>results = [], dataframes = Map.empty, completed = 0,
      emitted = [(5, ''Importing PCSE modules...''),
                 (15, ''Loading weather for '' @ loc_name (loc cfg) @ ''...'')],
      printed = []\<rparr>"

text \<open>Lines 23-254. The outer handler turns any exception into the error signal; the
  progress signals emitted before it stay emitted.\<close>

definition run :: "collaborators \<Rightarrow> config \<Rightarrow> trace" where
  "run ext cfg =
     (let em1 = [(5, ''Importing PCSE modules...'')] in
      case map_of CROP_OPTIONS (crop cfg) of
        None \<Rightarrow> \<lparr>signals = em1, warnings = [], final = Error KeyError\<rparr>
      | Some cc \<Rightarrow>
          (let year = sd_year (start cfg);
               em2 = em1 @ [(15, ''Loading weather for '' @ loc_name (loc cfg) @ ''...'')] in
           case weather_provider ext (lat (loc cfg)) (lon (loc cfg)) of
             None \<Rightarrow> \<lparr>signals = em2, warnings = [], final = Error ExternalError\<rparr>
           | Some weather \<Rightarrow>
               (let weather_data = weather_data_of weather year in
                if weather_data = [] then \<lparr>signals = em2, warnings = [], final = Error KeyError\<rparr>
                else
                  (case scenario_loop (make_env ext cfg cc weather) (fert_scenarios cfg)
                          (start_batch cfg) of
                     (Some e, st) \<Rightarrow>
                       \<lparr>signals = emitted st, warnings = printed st, final = Error e\<rparr>
                   | (None, st) \<Rightarrow>
                       \<lparr>signals = emitted st @ [(95, ''Finalizing results...''), (100, ''Done!'')],
                        warnings = printed st,
                        final = Finished (results st) (dataframes st) weather_data year
                                  (loc_name (loc cfg))\<rparr>))))"

subsection \<open>Auxiliary notions for the proofs\<close>

text \<open>The percentage of line 77 and the state after the signal of line 78, for a loop
  that has at least one enabled scenario.\<close>

definition pct_of :: "env \<Rightarrow> batch \<Rightarrow> int" where
  "pct_of ev st = 20 + (70 * int (completed st)) div int (total_scenarios ev)"

definition announce :: "env \<Rightarrow> scenario \<Rightarrow> batch \<Rightarrow> batch" where
  "announce ev scn st =
     st\<lparr>emitted := emitted st @ [(pct_of ev st, ''Running: '' @ name scn @ ''...'')]\<rparr>"

subsection \<open>Example inputs\<close>

text \<open>A weather provider that fails on one date, an engine that raises when it is given
  no timed events, and the first scenarios of \<^verbatim>\<open>DEFAULT_FERT_SCENARIOS\<close>.\<close>

definition demo_weather :: weather where
  "demo_weather d =
     (if d = 738595 then None
      else Some \<lparr>TMAX = 26, TMIN = 14, RAIN = 0, IRRAD = 20000000\<rparr>)"

definition demo_output :: "output_row list" where
  "demo_output = [\<lparr>day = 738594, vars = [(''LAI'', 1)]\<rparr>,
                  \<lparr>day = 738595, vars = [(''LAI'', 2)]\<rparr>,
                  \<lparr>day = 738596, vars = [(''LAI'', 3)]\<rparr>]"

definition demo_summary :: pydict where
  "demo_summary = [(''TWSO'', 3000), (''TAGP'', 8000), (''LAIMAX'', 4)]"

definition demo_engine :: engine where
  "demo_engine params w agro =
     (if TimedEvents agro = None then None else Some (demo_output, [demo_summary]))"

definition demo_ext :: collaborators where
  "demo_ext = \<lparr>weather_provider = (\<lambda>la lo. Some demo_weather),
               crop_provider = (\<lambda>c v. Some []),
               wofost = demo_engine\<rparr>"

definition demo_soil :: pydict where
  "demo_soil = [(''SM0'', 0.45), (''SMFCF'', 0.32), (''SMW'', 0.12), (''CRAIRC'', 0.06),
                (''RDMSOL'', 100), (''K0'', 10), (''SOPE'', 1), (''KSUB'', 1),
                (''NSOILBASE'', 40)]"

definition sc_none :: scenario where
  "sc_none = \<lparr>name = ''No Fertilizer'', total_n = 0, applications = [], enabled = Some True\<rparr>"

definition sc_low :: scenario where
  "sc_low = \<lparr>name = ''Low (25 kg N/ha)'', total_n = 25,
             applications = [(0, 15, 7/10), (30, 10, 6/10)], enabled = Some True\<rparr>"

definition sc_off :: scenario where
  "sc_off = \<lparr>name = ''Medium (50 kg N/ha)'', total_n = 50,
             applications = [(0, 20, 7/10)], enabled = Some False\<rparr>"

definition sc_far :: scenario where
  "sc_far = \<lparr>name = ''Late'', total_n = 10,
             applications = [(4000000, 10, 1/2)], enabled = Some True\<rparr>"

definition demo_cfg :: "string \<Rightarrow> (string \<times> scenario) list \<Rightarrow> config" where
  "demo_cfg c scs =
     \<lparr>crop = c, loc = \<lparr>loc_name = ''Nairobi'', lat = -1.29, lon = 36.82\<rparr>,
      soil_params = demo_soil, fert_scenarios = scs,
      start = \<lparr>sd_year = 2023, sd_month = 3, sd_day = 15\<rparr>\<rparr>"

definition demo_frame :: dataframe where
  "demo_frame = \<lparr>rows = demo_output, GDD = Some [20, 20, 40], daily_GDD = Some [20, 0, 20]\<rparr>"

definition demo_result :: scenario_result where
  "demo_result = \<lparr>df = demo_frame, summary = demo_summary, yield_kg = 3000, yield_t = 3,
                   scenario_name = ''Low (25 kg N/ha)'', scenario_key = ''low'', n_rate = 25,
                   tagp = 8000, laimax = 4\<rparr>"

section \<open>Properties of the agromanagement builder\<close>

lemma timed_events_loop_ok:
  "list_all (\<lambda>(d, a, r). 0 < pd + d \<and> pd + d \<le> MAXORDINAL) apps \<Longrightarrow>
   timed_events_loop pd i apps acc =
     Inr (acc @ map (\<lambda>(j, (d, a, r)). n_event j (pd + d) a r) (List.enumerate i apps))"
  by (induction apps arbitrary: i acc) (auto simp: date_add_def Let_def)

lemma timed_events_loop_Inr:
  "timed_events_loop pd i apps acc = Inr evs \<Longrightarrow>
   evs = acc @ map (\<lambda>(j, (d, a, r)). n_event j (pd + d) a r) (List.enumerate i apps)"
proof (induction apps arbitrary: i acc)
  case Nil
  then show ?case by simp
next
  case (Cons x rest)
  obtain d a r where x: "x = (d, a, r)" by (cases x)
  from Cons.prems x obtain dt where dt: "date_add pd d = Inr dt"
    and run: "timed_events_loop pd (Suc i) rest (acc @ [n_event i dt a r]) = Inr evs"
    by (auto split: sum.splits)
  from dt have "dt = pd + d" by (auto simp: date_add_def Let_def split: if_splits)
  with Cons.IH [OF run] x show ?case by simp
qed

lemma build_timed_events_nonempty:
  "build_timed_events pd apps \<noteq> Inr (Some [])"
proof
  assume h: "build_timed_events pd apps = Inr (Some [])"
  then have ne: "apps \<noteq> []" by (auto simp: build_timed_events_def split: if_splits)
  with h have "timed_events_loop pd 0 apps [] = Inr []"
    by (auto simp: build_timed_events_def split: if_splits sum.splits)
  from timed_events_loop_Inr [OF this]
  have "length ([] :: timed_event list) = length (List.enumerate 0 apps)" by simp
  with ne show False by simp
qed

lemma build_timed_events_Some:
  assumes "build_timed_events pd apps = Inr (Some evs)"
  shows "evs = map (\<lambda>(j, (d, a, r)). n_event j (pd + d) a r) (List.enumerate 0 apps)"
proof -
  from assms have "timed_events_loop pd 0 apps [] = Inr evs"
    by (auto simp: build_timed_events_def split: if_splits sum.splits)
  from timed_events_loop_Inr [OF this] show ?thesis by simp
qed

text \<open>
  Claim C6. A scenario whose application list is empty gets an agromanagement whose
  \<^verbatim>\<open>TimedEvents\<close> entry is \<^verbatim>\<open>None\<close>; and no scenario at all gets the empty list
  there.
\<close>

theorem empty_applications_no_timed_events:
  "(applications scn = [] \<longrightarrow>
      (\<exists>agro. build_agro c cc pd ed scn = Inr agro \<and> TimedEvents agro = None)) \<and>
   (\<forall>agro. build_agro c cc pd ed scn = Inr agro \<longrightarrow> TimedEvents agro \<noteq> Some [])"
proof (intro conjI impI allI)
  assume "applications scn = []"
  then show "\<exists>agro. build_agro c cc pd ed scn = Inr agro \<and> TimedEvents agro = None"
    by (simp add: build_agro_def build_timed_events_def)
next
  fix agro
  assume "build_agro c cc pd ed scn = Inr agro"
  then have "build_timed_events pd (applications scn) = Inr (TimedEvents agro)"
    by (auto simp: build_agro_def split: sum.splits)
  then show "TimedEvents agro \<noteq> Some []"
    using build_timed_events_nonempty [of pd "applications scn"] by auto
qed

theorem empty_applications_no_timed_events_witness:
  "build_agro ''barley'' \<lparr>variety = ''Spring_barley_301'', season_days = 120, needs_vern_override = False\<rparr>
      738594 738885 \<lparr>name = ''No Fertilizer'', total_n = 0, applications = [], enabled = Some True\<rparr>
   = Inr \<lparr>campaign_start = 738594,
          CropCalendar = \<lparr>crop_name = ''barley'', variety_name = ''Spring_barley_301'',
                                crop_start_date = 738594, crop_start_type = ''emergence'',
                                crop_end_date = 738885, crop_end_type = ''earliest'',
                                max_duration = 120\<rparr>,
          TimedEvents = None, StateEvents = None\<rparr>"
  using empty_applications_no_timed_events [of "\<lparr>name = ''No Fertilizer'', total_n = 0, applications = [], enabled = Some True\<rparr>"
      "''barley''" "\<lparr>variety = ''Spring_barley_301'', season_days = 120, needs_vern_override = False\<rparr>" 738594 738885]
  by (simp add: build_agro_def build_timed_events_def)

text \<open>
  Claim C7. When every application date lies in the range of \<^verbatim>\<open>date\<close>, the builder
  returns a list of events; and whenever it returns one, the list has one event per
  application, in the order of the applications, the i-th (counting from 0) dated
  planting date plus day offset, carrying the amount and the recovery fraction of the
  i-th application, and named by the position i + 1.
\<close>

theorem timed_events_follow_applications:
  "(apps \<noteq> [] \<and> list_all (\<lambda>(d, a, r). 0 < pd + d \<and> pd + d \<le> MAXORDINAL) apps \<longrightarrow>
      (\<exists>evs. build_timed_events pd apps = Inr (Some evs))) \<and>
   (\<forall>evs. build_timed_events pd apps = Inr (Some evs) \<longrightarrow>
      length evs = length apps \<and>
      (\<forall>i < length apps.
         events_table (evs ! i) = [(pd + fst (apps ! i), fst (snd (apps ! i)), snd (snd (apps ! i)))] \<and>
         event_signal (evs ! i) = ''apply_n'' \<and>
         event_name (evs ! i) = ''N application '' @ str_nat (i + 1)))"
proof (rule conjI)
  show "apps \<noteq> [] \<and> list_all (\<lambda>(d, a, r). 0 < pd + d \<and> pd + d \<le> MAXORDINAL) apps \<longrightarrow>
      (\<exists>evs. build_timed_events pd apps = Inr (Some evs))"
    by (simp add: build_timed_events_def timed_events_loop_ok)
next
  show "\<forall>evs. build_timed_events pd apps = Inr (Some evs) \<longrightarrow>
      length evs = length apps \<and>
      (\<forall>i < length apps.
         events_table (evs ! i) = [(pd + fst (apps ! i), fst (snd (apps ! i)), snd (snd (apps ! i)))] \<and>
         event_signal (evs ! i) = ''apply_n'' \<and>
         event_name (evs ! i) = ''N application '' @ str_nat (i + 1))"
  proof (intro allI impI)
    fix evs
    assume "build_timed_events pd apps = Inr (Some evs)"
    from build_timed_events_Some [OF this]
    show "length evs = length apps \<and>
      (\<forall>i < length apps.
         events_table (evs ! i) = [(pd + fst (apps ! i), fst (snd (apps ! i)), snd (snd (apps ! i)))] \<and>
         event_signal (evs ! i) = ''apply_n'' \<and>
         event_name (evs ! i) = ''N application '' @ str_nat (i + 1))"
      by (simp add: nth_enumerate_eq n_event_def split: prod.splits)
  qed
qed

theorem timed_events_follow_applications_witness:
  "build_timed_events (ymd2ord 2023 3 15) [(0, 15, 7/10), (30, 10, 6/10)] =
     Inr (Some [\<lparr>event_signal = ''apply_n'', event_name = ''N application 1'',
                  events_table = [(ymd2ord 2023 3 15, 15, 7/10)]\<rparr>,
                \<lparr>event_signal = ''apply_n'', event_name = ''N application 2'',
                  events_table = [(ymd2ord 2023 4 14, 10, 6/10)]\<rparr>])"
  using timed_events_follow_applications [of "[(0, 15, 7/10), (30, 10, 6/10)]" "ymd2ord 2023 3 15"]
  by (simp add: build_timed_events_def date_add_def MAXORDINAL_def n_event_def str_nat.simps
        ymd2ord_def days_before_year_def days_before_month_def DAYS_BEFORE_MONTH_def is_leap_def)

section \<open>Properties of the GDD loop\<close>

lemma daily_gdd_of_nonneg: "0 \<le> daily_gdd_of w d"
  by (simp add: daily_gdd_of_def split: option.splits)

lemma gdd_loop_daily:
  "snd (gdd_loop w ds c gl dl) = dl @ map (daily_gdd_of w) ds"
  by (induction ds arbitrary: c gl dl) (simp_all add: Let_def)

lemma gdd_loop_cumulative:
  "fst (gdd_loop w ds c gl dl) =
     gl @ map (\<lambda>k. c + sum_list (map (daily_gdd_of w) (take (Suc k) ds))) [0..<length ds]"
proof (induction ds arbitrary: c gl dl)
  case Nil
  then show ?case by simp
next
  case (Cons d ds)
  show ?case
    by (simp add: Let_def Cons.IH map_upt_Suc add.assoc del: upt_Suc)
qed

lemma gdd_loop_sorted:
  "sorted gl \<Longrightarrow> \<forall>x \<in> set gl. x \<le> c \<Longrightarrow> sorted (fst (gdd_loop w ds c gl dl))"
proof (induction ds arbitrary: c gl dl)
  case Nil
  then show ?case by simp
next
  case (Cons d ds)
  let ?c = "c + daily_gdd_of w d"
  have le: "c \<le> ?c" using daily_gdd_of_nonneg [of w d] by simp
  have "sorted (gl @ [?c])"
    using Cons.prems le by (auto simp: sorted_append intro: order_trans)
  moreover have "\<forall>x \<in> set (gl @ [?c]). x \<le> ?c"
    using Cons.prems le by (auto intro: order_trans)
  ultimately have "sorted (fst (gdd_loop w ds ?c (gl @ [?c]) (dl @ [daily_gdd_of w d])))"
    by (rule Cons.IH)
  then show ?case by (simp add: Let_def)
qed

lemma gdd_loop_last:
  "ds \<noteq> [] \<Longrightarrow>
   last (fst (gdd_loop w ds c gl dl)) = c + sum_list (map (daily_gdd_of w) ds)"
proof (induction ds arbitrary: c gl dl)
  case Nil
  then show ?case by simp
next
  case (Cons d ds)
  show ?case
  proof (cases "ds = []")
    case True
    then show ?thesis by (simp add: Let_def)
  next
    case False
    from Cons.IH [OF False] show ?thesis by (simp add: Let_def add.assoc)
  qed
qed

lemma daily_sum_over_successes:
  "sum_list (map (daily_gdd_of w) ds) =
   sum_list (map (\<lambda>d. max 0 ((TMAX (the (w d)) + TMIN (the (w d))) / 2))
                 (filter (\<lambda>d. w d \<noteq> None) ds))"
  by (induction ds) (auto simp: daily_gdd_of_def tbase_def)

lemma run_scenario_nonroot:
  assumes "c \<notin> set ROOT_CROPS" and "eng params w agro = Some (out, s # ss)" and "out \<noteq> []"
  shows "run_scenario eng w c params agro key scn =
     Inr (Some \<lparr>df = \<lparr>rows = out, GDD = Some (fst (gdd_loop w (map day out) 0 [] [])),
                        daily_GDD = Some (snd (gdd_loop w (map day out) 0 [] []))\<rparr>,
                 summary = s, yield_kg = main_yield c s, yield_t = main_yield c s / 1000,
                 scenario_name = name scn, scenario_key = key, n_rate = total_n scn,
                 tagp = dict_get s ''TAGP'' 0, laimax = dict_get s ''LAIMAX'' 0\<rparr>,
          Some \<lparr>rows = out, GDD = Some (fst (gdd_loop w (map day out) 0 [] [])),
                daily_GDD = Some (snd (gdd_loop w (map day out) 0 [] []))\<rparr>)"
  using assms by (simp add: run_scenario_def day_column_def Let_def split: prod.splits)

lemma run_scenario_root:
  assumes "c \<in> set ROOT_CROPS" and "eng params w agro = Some (out, s # ss)"
  shows "run_scenario eng w c params agro key scn =
     Inr (None, Some \<lparr>rows = out, GDD = None, daily_GDD = None\<rparr>)"
  using assms by (simp add: run_scenario_def)

section \<open>Properties of one iteration and of the loop\<close>

lemma run_scenario_result:
  assumes "run_scenario eng w c p a key scn = Inr (Some r, f)"
  shows "yield_kg r = main_yield c (summary r) \<and> yield_t r = yield_kg r / 1000"
  using assms
  by (auto simp: run_scenario_def Let_def split: option.splits list.splits if_splits sum.splits prod.splits)

text \<open>The five ways through one iteration.\<close>

lemma step_disabled:
  "\<not> is_enabled scn \<Longrightarrow> scenario_step ev (key, scn) st = (None, st)"
  by (simp add: scenario_step_def)

lemma step_no_total:
  "is_enabled scn \<Longrightarrow> total_scenarios ev = 0 \<Longrightarrow>
   scenario_step ev (key, scn) st = (Some ZeroDivisionError, st)"
  by (simp add: scenario_step_def progress_pct_def)

lemma step_build_fails:
  "is_enabled scn \<Longrightarrow> total_scenarios ev \<noteq> 0 \<Longrightarrow> build_inputs ev scn = Inl e \<Longrightarrow>
   scenario_step ev (key, scn) st = (Some e, announce ev scn st)"
  by (simp add: scenario_step_def progress_pct_def announce_def pct_of_def Let_def)

lemma step_engine_fails:
  "is_enabled scn \<Longrightarrow> total_scenarios ev \<noteq> 0 \<Longrightarrow> build_inputs ev scn = Inr (p, a) \<Longrightarrow>
   run_scenario (env_engine ev) (env_weather ev) (env_crop ev) p a key scn = Inl e \<Longrightarrow>
   scenario_step ev (key, scn) st =
     (None, (announce ev scn st)\<lparr>printed := printed st @ [key], completed := completed st + 1\<rparr>)"
  by (simp add: scenario_step_def progress_pct_def announce_def pct_of_def Let_def)

lemma step_engine_returns:
  "is_enabled scn \<Longrightarrow> total_scenarios ev \<noteq> 0 \<Longrightarrow> build_inputs ev scn = Inr (p, a) \<Longrightarrow>
   run_scenario (env_engine ev) (env_weather ev) (env_crop ev) p a key scn = Inr (res, frame) \<Longrightarrow>
   scenario_step ev (key, scn) st =
     (None, (announce ev scn st)
              \<lparr>results := (case res of None \<Rightarrow> results st | Some r \<Rightarrow> results st @ [r]),
               dataframes := (case frame of None \<Rightarrow> dataframes st
                              | Some f \<Rightarrow> (dataframes st)(name scn \<mapsto> f)),
               completed := completed st + 1\<rparr>)"
  by (simp add: scenario_step_def progress_pct_def announce_def pct_of_def Let_def split: option.splits)

lemma step_results:
  assumes "scenario_step ev ks st = (err, st')"
  shows "results st' = results st \<or>
         (\<exists>r. results st' = results st @ [r] \<and>
              yield_kg r = main_yield (env_crop ev) (summary r) \<and>
              yield_t r = yield_kg r / 1000)"
proof -
  obtain key scn where ks: "ks = (key, scn)" by (cases ks)
  show ?thesis
  proof (cases "is_enabled scn \<and> total_scenarios ev \<noteq> 0")
    case False
    with assms ks show ?thesis
      using step_disabled [of scn ev key st] step_no_total [of scn ev key st] by auto
  next
    case True
    show ?thesis
    proof (cases "build_inputs ev scn")
      case (Inl e)
      with True assms ks show ?thesis
        using step_build_fails [of scn ev e key st] by (auto simp: announce_def)
    next
      case (Inr pa)
      obtain p a where pa: "pa = (p, a)" by (cases pa)
      show ?thesis
      proof (cases "run_scenario (env_engine ev) (env_weather ev) (env_crop ev) p a key scn")
        case (Inl e)
        with True Inr pa assms ks show ?thesis
          using step_engine_fails [of scn ev p a key e st] by (auto simp: announce_def)
      next
        case rs: (Inr rf)
        obtain res frame where rf: "rf = (res, frame)" by (cases rf)
        from True Inr pa rs rf assms ks
        have st': "st' = (announce ev scn st)
              \<lparr>results := (case res of None \<Rightarrow> results st | Some r \<Rightarrow> results st @ [r]),
               dataframes := (case frame of None \<Rightarrow> dataframes st
                              | Some f \<Rightarrow> (dataframes st)(name scn \<mapsto> f)),
               completed := completed st + 1\<rparr>"
          using step_engine_returns [of scn ev p a key res frame st] by simp
        show ?thesis
        proof (cases res)
          case None
          with st' show ?thesis by simp
        next
          case (Some r)
          with rs rf have "run_scenario (env_engine ev) (env_weather ev) (env_crop ev) p a key scn
              = Inr (Some r, frame)" by simp
          from run_scenario_result [OF this] st' Some show ?thesis by simp
        qed
      qed
    qed
  qed
qed

lemma loop_results:
  assumes "scenario_loop ev kss st = (err, st')"
    and "\<forall>r \<in> set (results st). yield_kg r = main_yield (env_crop ev) (summary r) \<and>
                                 yield_t r = yield_kg r / 1000"
  shows "\<forall>r \<in> set (results st'). yield_kg r = main_yield (env_crop ev) (summary r) \<and>
                                  yield_t r = yield_kg r / 1000"
  using assms
proof (induction kss arbitrary: st)
  case Nil
  then show ?case by simp
next
  case (Cons ks rest)
  obtain e st1 where step: "scenario_step ev ks st = (e, st1)" by (cases "scenario_step ev ks st")
  from step_results [OF step] Cons.prems(2)
  have inv: "\<forall>r \<in> set (results st1). yield_kg r = main_yield (env_crop ev) (summary r) \<and>
                                     yield_t r = yield_kg r / 1000"
    by auto
  show ?case
  proof (cases e)
    case None
    with step Cons.prems(1) have "scenario_loop ev rest st1 = (err, st')" by simp
    from Cons.IH [OF this inv] show ?thesis .
  next
    case (Some x)
    with step Cons.prems(1) have "st' = st1" by simp
    with inv show ?thesis by simp
  qed
qed

lemma run_Finished:
  assumes "final (run ext cfg) = Finished rs dfs wd y n"
  shows "\<exists>cc w st. map_of CROP_OPTIONS (crop cfg) = Some cc \<and>
           weather_provider ext (lat (loc cfg)) (lon (loc cfg)) = Some w \<and>
           scenario_loop (make_env ext cfg cc w) (fert_scenarios cfg) (start_batch cfg) = (None, st) \<and>
           rs = results st \<and> dfs = dataframes st \<and>
           signals (run ext cfg) = emitted st @ [(95, ''Finalizing results...''), (100, ''Done!'')] \<and>
           warnings (run ext cfg) = printed st"
  using assms
  by (auto simp: run_def Let_def split: option.splits if_splits prod.splits)

section \<open>Evaluating the example inputs\<close>

lemma ymd2ord_year_span: "ymd2ord y 1 1 < ymd2ord y 12 31"
  by (simp add: ymd2ord_def days_before_month_def DAYS_BEFORE_MONTH_def)

lemma weather_data_of_nonempty:
  assumes "w (ymd2ord y 1 1) \<noteq> None"
  shows "weather_data_of w y \<noteq> []"
proof -
  have "[ymd2ord y 1 1 .. ymd2ord y 12 31] = ymd2ord y 1 1 # [ymd2ord y 1 1 + 1 .. ymd2ord y 12 31]"
    using ymd2ord_year_span [of y] by (simp add: upto_rec1)
  with assms show ?thesis
    by (auto simp: weather_data_of_def List.map_filter_simps split: option.splits)
qed

lemma demo_weather_data: "weather_data_of demo_weather 2023 \<noteq> []"
  by (rule weather_data_of_nonempty)
     (simp add: demo_weather_def ymd2ord_def days_before_year_def days_before_month_def
        DAYS_BEFORE_MONTH_def)

lemmas date_defs = ymd2ord_def days_before_year_def days_before_month_def
  DAYS_BEFORE_MONTH_def is_leap_def

lemmas worker_defs = scenario_step_def build_inputs_def build_agro_def build_timed_events_def
  build_params_def set_override_def build_soildata_def SOIL_KEYS_def sitedata_default_def
  run_scenario_def day_column_def progress_pct_def is_enabled_def date_add_def MAXORDINAL_def
  n_event_def str_nat.simps ROOT_CROPS_def CROP_OPTIONS_def daily_gdd_of_def tbase_def
  main_yield_def dict_get_def

lemmas demo_defs = demo_ext_def demo_cfg_def demo_engine_def demo_output_def demo_summary_def
  demo_soil_def sc_none_def sc_low_def sc_off_def sc_far_def

lemma demo_gdd: "gdd_loop demo_weather [738594, 738595, 738596] 0 [] [] = ([20, 20, 40], [20, 0, 20])"
  by (simp add: demo_weather_def Let_def daily_gdd_of_def tbase_def)

lemma demo_run_barley:
  "run demo_ext (demo_cfg ''barley'' [(''none'', sc_none), (''low'', sc_low), (''medium'', sc_off)]) =
     \<lparr>signals = [(5, ''Importing PCSE modules...''), (15, ''Loading weather for Nairobi...''),
                 (20, ''Running: No Fertilizer...''), (55, ''Running: Low (25 kg N/ha)...''),
                 (95, ''Finalizing results...''), (100, ''Done!'')],
      warnings = [''none''],
      final = Finished [demo_result] [''Low (25 kg N/ha)'' \<mapsto> demo_frame]
                (weather_data_of demo_weather 2023) 2023 ''Nairobi''\<rparr>"
  by (simp add: run_def make_env_def start_batch_def demo_defs worker_defs date_defs demo_weather_data demo_weather_def Let_def
        demo_result_def demo_frame_def)

section \<open>Progress signals of the loop\<close>

lemma step_shape:
  "(\<not> is_enabled scn \<and> scenario_step ev (key, scn) st = (None, st)) \<or>
   (is_enabled scn \<and> total_scenarios ev = 0 \<and>
      scenario_step ev (key, scn) st = (Some ZeroDivisionError, st)) \<or>
   (is_enabled scn \<and> total_scenarios ev \<noteq> 0 \<and>
      (\<exists>e. build_inputs ev scn = Inl e \<and>
           scenario_step ev (key, scn) st = (Some e, announce ev scn st))) \<or>
   (is_enabled scn \<and> total_scenarios ev \<noteq> 0 \<and>
      (\<exists>p a e. build_inputs ev scn = Inr (p, a) \<and>
           run_scenario (env_engine ev) (env_weather ev) (env_crop ev) p a key scn = Inl e \<and>
           scenario_step ev (key, scn) st =
             (None, (announce ev scn st)\<lparr>printed := printed st @ [key],
                                           completed := completed st + 1\<rparr>))) \<or>
   (is_enabled scn \<and> total_scenarios ev \<noteq> 0 \<and>
      (\<exists>p a res frame. build_inputs ev scn = Inr (p, a) \<and>
           run_scenario (env_engine ev) (env_weather ev) (env_crop ev) p a key scn = Inr (res, frame) \<and>
           scenario_step ev (key, scn) st =
             (None, (announce ev scn st)
                \<lparr>results := (case res of None \<Rightarrow> results st | Some r \<Rightarrow> results st @ [r]),
                 dataframes := (case frame of None \<Rightarrow> dataframes st
                                | Some f \<Rightarrow> (dataframes st)(name scn \<mapsto> f)),
                 completed := completed st + 1\<rparr>)))"
proof (cases "is_enabled scn")
  case False
  then show ?thesis by (simp add: step_disabled)
next
  case en: True
  show ?thesis
  proof (cases "total_scenarios ev = 0")
    case True
    with en show ?thesis by (simp add: step_no_total)
  next
    case nz: False
    show ?thesis
    proof (cases "build_inputs ev scn")
      case (Inl e)
      with en nz show ?thesis by (simp add: step_build_fails)
    next
      case (Inr pa)
      obtain p a where pa: "pa = (p, a)" by (cases pa)
      show ?thesis
      proof (cases "run_scenario (env_engine ev) (env_weather ev) (env_crop ev) p a key scn")
        case (Inl e)
        with en nz Inr pa show ?thesis by (simp add: step_engine_fails)
      next
        case rs: (Inr rf)
        obtain res frame where rf: "rf = (res, frame)" by (cases rf)
        from en nz Inr pa rs rf show ?thesis by (simp add: step_engine_returns)
      qed
    qed
  qed
qed






section \<open>The claims about the whole run\<close>

lemma run_shape:
  "(final (run ext cfg) = Error KeyError \<and> map fst (signals (run ext cfg)) = [5]) \<or>
   ((\<exists>e. final (run ext cfg) = Error e \<and> e \<noteq> ZeroDivisionError) \<and>
      map fst (signals (run ext cfg)) = [5, 15]) \<or>
   (\<exists>cc w err st. map_of CROP_OPTIONS (crop cfg) = Some cc \<and>
        weather_provider ext (lat (loc cfg)) (lon (loc cfg)) = Some w \<and>
        weather_data_of w (sd_year (start cfg)) \<noteq> [] \<and>
        scenario_loop (make_env ext cfg cc w) (fert_scenarios cfg) (start_batch cfg) = (err, st) \<and>
        run ext cfg =
          (case err of
             Some e \<Rightarrow> \<lparr>signals = emitted st, warnings = printed st, final = Error e\<rparr>
           | None \<Rightarrow>
               \<lparr>signals = emitted st @ [(95, ''Finalizing results...''), (100, ''Done!'')],
                warnings = printed st,
                final = Finished (results st) (dataframes st)
                          (weather_data_of w (sd_year (start cfg))) (sd_year (start cfg))
                          (loc_name (loc cfg))\<rparr>))"
proof (cases "map_of CROP_OPTIONS (crop cfg)")
  case None
  then show ?thesis by (simp add: run_def Let_def)
next
  case cc: (Some cc)
  show ?thesis
  proof (cases "weather_provider ext (lat (loc cfg)) (lon (loc cfg))")
    case None
    with cc show ?thesis by (simp add: run_def Let_def)
  next
    case w: (Some w)
    show ?thesis
    proof (cases "weather_data_of w (sd_year (start cfg)) = []")
      case True
      with cc w show ?thesis by (simp add: run_def Let_def)
    next
      case False
      obtain err st where
        "scenario_loop (make_env ext cfg cc w) (fert_scenarios cfg) (start_batch cfg) = (err, st)"
        by (cases "scenario_loop (make_env ext cfg cc w) (fert_scenarios cfg) (start_batch cfg)")
      with cc w False show ?thesis
        by (auto simp: run_def Let_def split: option.splits)
    qed
  qed
qed




text \<open>
  Claim C9. Every result of a finished run carries a \<^verbatim>\<open>yield_t\<close> equal to its
  \<^verbatim>\<open>yield_kg\<close> divided by 1000.
\<close>

theorem yield_t_is_yield_kg_over_1000:
  assumes "final (run ext cfg) = Finished rs dfs wd y n" and "r \<in> set rs"
  shows "yield_t r = yield_kg r / 1000"
proof -
  from run_Finished [OF assms(1)] obtain cc w st where
    loop: "scenario_loop (make_env ext cfg cc w) (fert_scenarios cfg) (start_batch cfg) = (None, st)"
    and rs: "rs = results st" by blast
  have "\<forall>r \<in> set (results (start_batch cfg)).
          yield_kg r = main_yield (env_crop (make_env ext cfg cc w)) (summary r) \<and>
          yield_t r = yield_kg r / 1000"
    by (simp add: start_batch_def)
  from loop_results [OF loop this] rs assms(2) show ?thesis by simp
qed

theorem yield_t_is_yield_kg_over_1000_witness:
  "final (run demo_ext (demo_cfg ''barley''
       [(''none'', sc_none), (''low'', sc_low), (''medium'', sc_off)])) =
     Finished [demo_result] [''Low (25 kg N/ha)'' \<mapsto> demo_frame]
       (weather_data_of demo_weather 2023) 2023 ''Nairobi'' \<and>
   yield_kg demo_result = 3000 \<and> yield_t demo_result = 3000 / 1000"
  using yield_t_is_yield_kg_over_1000 [of demo_ext
      "demo_cfg ''barley'' [(''none'', sc_none), (''low'', sc_low), (''medium'', sc_off)]"
      "[demo_result]" "[''Low (25 kg N/ha)'' \<mapsto> demo_frame]"
      "weather_data_of demo_weather 2023" 2023 "''Nairobi''" demo_result]
  by (simp add: demo_run_barley demo_result_def)

text \<open>
  Claim C5. The main yield computed from a summary is the fallback exactly when the
  \<^verbatim>\<open>TWSO\<close> entry (0 when absent) is at most 0: then it is 0.5 times \<^verbatim>\<open>TAGP\<close> for
  potato, cassava and sweetpotato and 0.4 times \<^verbatim>\<open>TAGP\<close> for every other crop;
  otherwise it is \<^verbatim>\<open>TWSO\<close>. Every result of a finished run carries that value as its
  \<^verbatim>\<open>yield_kg\<close>.
\<close>

theorem main_yield_fallback:
  "main_yield c s =
     (if dict_get s ''TWSO'' 0 \<le> 0
      then (if c = ''potato'' \<or> c = ''cassava'' \<or> c = ''sweetpotato'' then 0.5 else 0.4) *
           dict_get s ''TAGP'' 0
      else dict_get s ''TWSO'' 0) \<and>
   (\<forall>ext cfg rs dfs wd y n r.
      final (run ext cfg) = Finished rs dfs wd y n \<and> r \<in> set rs \<longrightarrow>
      yield_kg r = main_yield (crop cfg) (summary r))"
proof (rule conjI)
  show "main_yield c s =
     (if dict_get s ''TWSO'' 0 \<le> 0
      then (if c = ''potato'' \<or> c = ''cassava'' \<or> c = ''sweetpotato'' then 0.5 else 0.4) *
           dict_get s ''TAGP'' 0
      else dict_get s ''TWSO'' 0)"
    by (simp add: main_yield_def ROOT_CROPS_def Let_def)
next
  show "\<forall>ext cfg rs dfs wd y n r.
      final (run ext cfg) = Finished rs dfs wd y n \<and> r \<in> set rs \<longrightarrow>
      yield_kg r = main_yield (crop cfg) (summary r)"
  proof (intro allI impI)
    fix ext cfg rs dfs wd y n r
    assume h: "final (run ext cfg) = Finished rs dfs wd y n \<and> r \<in> set rs"
    from h run_Finished [of ext cfg rs dfs wd y n] obtain cc w st where
      loop: "scenario_loop (make_env ext cfg cc w) (fert_scenarios cfg) (start_batch cfg) = (None, st)"
      and rs: "rs = results st" by blast
    have "\<forall>r \<in> set (results (start_batch cfg)).
          yield_kg r = main_yield (env_crop (make_env ext cfg cc w)) (summary r) \<and>
          yield_t r = yield_kg r / 1000"
      by (simp add: start_batch_def)
    from loop_results [OF loop this] rs h
    have "yield_kg r = main_yield (env_crop (make_env ext cfg cc w)) (summary r)" by simp
    then show "yield_kg r = main_yield (crop cfg) (summary r)"
      by (simp add: make_env_def Let_def)
  qed
qed

theorem main_yield_fallback_witness:
  "main_yield ''potato'' [(''TWSO'', 0), (''TAGP'', 9000)] = 4500 \<and>
   main_yield ''barley'' [(''TAGP'', 9000)] = 3600 \<and>
   main_yield ''potato'' [(''TWSO'', 7000), (''TAGP'', 9000)] = 7000 \<and>
   yield_kg demo_result = main_yield ''barley'' (summary demo_result)"
proof -
  have fin: "final (run demo_ext (demo_cfg ''barley''
       [(''none'', sc_none), (''low'', sc_low), (''medium'', sc_off)])) =
     Finished [demo_result] [''Low (25 kg N/ha)'' \<mapsto> demo_frame]
       (weather_data_of demo_weather 2023) 2023 ''Nairobi'' \<and> demo_result \<in> set [demo_result]"
    by (simp add: demo_run_barley)
  have "crop (demo_cfg ''barley'' [(''none'', sc_none), (''low'', sc_low), (''medium'', sc_off)]) = ''barley''"
    by (simp add: demo_cfg_def)
  with fin main_yield_fallback [of "''potato''" "[(''TWSO'', 0), (''TAGP'', 9000)]"]
  have last: "yield_kg demo_result = main_yield ''barley'' (summary demo_result)"
    by metis
  from main_yield_fallback [of "''potato''" "[(''TWSO'', 0), (''TAGP'', 9000)]"]
  have a: "main_yield ''potato'' [(''TWSO'', 0), (''TAGP'', 9000)] = 4500"
    by (simp add: dict_get_def)
  from main_yield_fallback [of "''barley''" "[(''TAGP'', 9000)]"]
  have b: "main_yield ''barley'' [(''TAGP'', 9000)] = 3600"
    by (simp add: dict_get_def)
  from main_yield_fallback [of "''potato''" "[(''TWSO'', 7000), (''TAGP'', 9000)]"]
  have c: "main_yield ''potato'' [(''TWSO'', 7000), (''TAGP'', 9000)] = 7000"
    by (simp add: dict_get_def)
  from a b c last show ?thesis by simp
qed

section \<open>The claims about weather lookups and failures\<close>

text \<open>
  Claim C8. In the GDD loop a failed weather lookup gives that day the daily value 0;
  both lists still get one entry per day, the last cumulative value is the sum of the
  daily values of the days whose lookup succeeded, a scenario of a crop outside
  \<^verbatim>\<open>ROOT_CROPS\<close> with a summary and an output yields its result and frame whatever the
  lookups do, and an iteration whose inputs were built never leaves the loop.
\<close>

theorem gdd_weather_failure_contributes_zero:
  "length (fst (gdd_loop w ds 0 [] [])) = length ds \<and>
   length (snd (gdd_loop w ds 0 [] [])) = length ds \<and>
   (\<forall>i < length ds. w (ds ! i) = None \<longrightarrow> snd (gdd_loop w ds 0 [] []) ! i = 0) \<and>
   (ds \<noteq> [] \<longrightarrow>
      last (fst (gdd_loop w ds 0 [] [])) =
        sum_list (map (\<lambda>d. max 0 ((TMAX (the (w d)) + TMIN (the (w d))) / 2))
                      (filter (\<lambda>d. w d \<noteq> None) ds))) \<and>
   (c \<notin> set ROOT_CROPS \<and> eng p w a = Some (out, s # ss) \<and> out \<noteq> [] \<longrightarrow>
      (\<exists>r f. run_scenario eng w c p a key scn = Inr (Some r, Some f) \<and>
             GDD f = Some (fst (gdd_loop w (map day out) 0 [] [])) \<and>
             daily_GDD f = Some (snd (gdd_loop w (map day out) 0 [] [])))) \<and>
   (is_enabled scn \<and> total_scenarios ev \<noteq> 0 \<and> build_inputs ev scn = Inr (p, a) \<longrightarrow>
      fst (scenario_step ev (key, scn) st) = None)"
proof (intro conjI)
  show "length (fst (gdd_loop w ds 0 [] [])) = length ds"
    by (simp add: gdd_loop_cumulative)
  show "length (snd (gdd_loop w ds 0 [] [])) = length ds"
    by (simp add: gdd_loop_daily)
  show "\<forall>i < length ds. w (ds ! i) = None \<longrightarrow> snd (gdd_loop w ds 0 [] []) ! i = 0"
    by (simp add: gdd_loop_daily daily_gdd_of_def)
  show "ds \<noteq> [] \<longrightarrow>
      last (fst (gdd_loop w ds 0 [] [])) =
        sum_list (map (\<lambda>d. max 0 ((TMAX (the (w d)) + TMIN (the (w d))) / 2))
                      (filter (\<lambda>d. w d \<noteq> None) ds))"
    using daily_sum_over_successes [of w ds] by (simp add: gdd_loop_last)
  show "c \<notin> set ROOT_CROPS \<and> eng p w a = Some (out, s # ss) \<and> out \<noteq> [] \<longrightarrow>
      (\<exists>r f. run_scenario eng w c p a key scn = Inr (Some r, Some f) \<and>
             GDD f = Some (fst (gdd_loop w (map day out) 0 [] [])) \<and>
             daily_GDD f = Some (snd (gdd_loop w (map day out) 0 [] [])))"
    by (simp add: run_scenario_nonroot)
  show "is_enabled scn \<and> total_scenarios ev \<noteq> 0 \<and> build_inputs ev scn = Inr (p, a) \<longrightarrow>
      fst (scenario_step ev (key, scn) st) = None"
    using step_shape [of scn ev key st] by auto
qed

theorem gdd_weather_failure_contributes_zero_witness:
  "demo_weather 738595 = None \<and>
   gdd_loop demo_weather [738594, 738595, 738596] 0 [] [] = ([20, 20, 40], [20, 0, 20]) \<and>
   last (fst (gdd_loop demo_weather [738594, 738595, 738596] 0 [] [])) = 20 + 20"
  using gdd_weather_failure_contributes_zero [of demo_weather "[738594, 738595, 738596]"]
  by (simp add: demo_weather_def Let_def daily_gdd_of_def tbase_def)

lemma loop_all_disabled:
  "filter is_enabled (map snd kss) = [] \<Longrightarrow> scenario_loop ev kss st = (None, st)"
proof (induction kss)
  case Nil
  then show ?case by simp
next
  case (Cons ks rest)
  obtain key scn where ks: "ks = (key, scn)" by (cases ks)
  from Cons.prems ks have dis: "\<not> is_enabled scn" and rest: "filter is_enabled (map snd rest) = []"
    by (auto split: if_splits)
  from Cons.IH [OF rest] dis ks show ?case by (simp add: step_disabled)
qed

lemma timed_events_loop_error:
  "timed_events_loop pd i apps acc = Inl e \<Longrightarrow> e = OverflowError"
proof (induction apps arbitrary: i acc)
  case Nil
  then show ?case by simp
next
  case (Cons x rest)
  obtain d a r where x: "x = (d, a, r)" by (cases x)
  show ?case
  proof (cases "date_add pd d")
    case (Inl e')
    with Cons.prems x show ?thesis
      by (auto simp: date_add_def Let_def split: if_splits)
  next
    case (Inr dt)
    with Cons.prems x Cons.IH show ?thesis by auto
  qed
qed

lemma build_inputs_error:
  assumes "build_inputs ev scn = Inl e"
  shows "e \<noteq> ZeroDivisionError"
proof -
  have agro: "\<And>x. build_agro (env_crop ev) (env_crop_config ev) (env_planting_date ev)
             (env_end_date ev) scn = Inl x \<Longrightarrow> x = OverflowError"
    by (auto simp: build_agro_def build_timed_events_def
          split: sum.splits if_splits dest: timed_events_loop_error)
  have par: "\<And>x. build_params (env_crop_provider ev) (env_crop ev) (env_crop_config ev)
             (env_soil_params ev) = Inl x \<Longrightarrow>
             x = ExternalError \<or> x = KeyError \<or> x = PCSEError"
    by (auto simp: build_params_def build_soildata_def set_override_def Let_def
          split: option.splits sum.splits if_splits)
  from assms agro par show ?thesis
    by (auto simp: build_inputs_def split: sum.splits)
qed

lemma loop_no_zero_division:
  assumes "scenario_loop ev kss st = (Some e, st')"
    and "total_scenarios ev = 0 \<longrightarrow> filter is_enabled (map snd kss) = []"
  shows "e \<noteq> ZeroDivisionError"
  using assms
proof (induction kss arbitrary: st)
  case Nil
  then show ?case by simp
next
  case (Cons ks rest)
  obtain key scn where ks: "ks = (key, scn)" by (cases ks)
  from Cons.prems(2) have rest: "total_scenarios ev = 0 \<longrightarrow> filter is_enabled (map snd rest) = []"
    by (auto split: if_splits)
  from Cons.prems(2) ks have en: "is_enabled scn \<longrightarrow> total_scenarios ev \<noteq> 0"
    by auto
  obtain x st1 where step: "scenario_step ev (key, scn) st = (x, st1)"
    by (cases "scenario_step ev (key, scn) st")
  show ?case
  proof (cases x)
    case None
    with step ks Cons.prems(1) have "scenario_loop ev rest st1 = (Some e, st')" by simp
    from Cons.IH [OF this rest] show ?thesis .
  next
    case (Some y)
    with step ks Cons.prems(1) have "y = e" by simp
    with step Some step_shape [of scn ev key st] en build_inputs_error [of ev scn]
    show ?thesis by auto
  qed
qed

text \<open>
  Claim C10. When the setup succeeds and no scenario is enabled, the run finishes with
  the signals 5, 15, 95, 100, an empty result list and an empty table map; and no run at
  all ends with the ZeroDivisionError of line 77, because the percentage is computed only
  for an enabled scenario, which makes the divisor positive.
\<close>

theorem no_enabled_scenario_still_finishes:
  "(map_of CROP_OPTIONS (crop cfg) \<noteq> None \<and>
    weather_provider ext (lat (loc cfg)) (lon (loc cfg)) = Some w \<and>
    weather_data_of w (sd_year (start cfg)) \<noteq> [] \<and>
    filter is_enabled (map snd (fert_scenarios cfg)) = [] \<longrightarrow>
      run ext cfg =
        \<lparr>signals = [(5, ''Importing PCSE modules...''),
                    (15, ''Loading weather for '' @ loc_name (loc cfg) @ ''...''),
                    (95, ''Finalizing results...''), (100, ''Done!'')],
         warnings = [],
         final = Finished [] Map.empty (weather_data_of w (sd_year (start cfg)))
                   (sd_year (start cfg)) (loc_name (loc cfg))\<rparr>) \<and>
   final (run ext cfg) \<noteq> Error ZeroDivisionError"
proof (rule conjI)
  show "map_of CROP_OPTIONS (crop cfg) \<noteq> None \<and>
    weather_provider ext (lat (loc cfg)) (lon (loc cfg)) = Some w \<and>
    weather_data_of w (sd_year (start cfg)) \<noteq> [] \<and>
    filter is_enabled (map snd (fert_scenarios cfg)) = [] \<longrightarrow>
      run ext cfg =
        \<lparr>signals = [(5, ''Importing PCSE modules...''),
                    (15, ''Loading weather for '' @ loc_name (loc cfg) @ ''...''),
                    (95, ''Finalizing results...''), (100, ''Done!'')],
         warnings = [],
         final = Finished [] Map.empty (weather_data_of w (sd_year (start cfg)))
                   (sd_year (start cfg)) (loc_name (loc cfg))\<rparr>"
    by (auto simp: run_def Let_def loop_all_disabled start_batch_def)
next
  show "final (run ext cfg) \<noteq> Error ZeroDivisionError"
  proof
    assume zd: "final (run ext cfg) = Error ZeroDivisionError"
    from run_shape [of ext cfg] show False
    proof (elim disjE exE conjE)
      assume "final (run ext cfg) = Error KeyError"
      with zd show False by simp
    next
      fix e
      assume "final (run ext cfg) = Error e" "e \<noteq> ZeroDivisionError"
      with zd show False by simp
    next
      fix cc w err st
      assume loop: "scenario_loop (make_env ext cfg cc w) (fert_scenarios cfg) (start_batch cfg) = (err, st)"
        and run: "run ext cfg =
          (case err of
             Some e \<Rightarrow> \<lparr>signals = emitted st, warnings = printed st, final = Error e\<rparr>
           | None \<Rightarrow>
               \<lparr>signals = emitted st @ [(95, ''Finalizing results...''), (100, ''Done!'')],
                warnings = printed st,
                final = Finished (results st) (dataframes st)
                          (weather_data_of w (sd_year (start cfg))) (sd_year (start cfg))
                          (loc_name (loc cfg))\<rparr>)"
      from zd run have err: "err = Some ZeroDivisionError"
        by (cases err) simp_all
      have "total_scenarios (make_env ext cfg cc w) = 0 \<longrightarrow>
              filter is_enabled (map snd (fert_scenarios cfg)) = []"
        by (simp add: make_env_def Let_def filter_map)
      from loop_no_zero_division [OF loop [unfolded err] this] show False by simp
    qed
  qed
qed

theorem no_enabled_scenario_still_finishes_witness:
  "run demo_ext (demo_cfg ''barley'' [(''medium'', sc_off)]) =
     \<lparr>signals = [(5, ''Importing PCSE modules...''), (15, ''Loading weather for Nairobi...''),
                 (95, ''Finalizing results...''), (100, ''Done!'')],
      warnings = [],
      final = Finished [] Map.empty (weather_data_of demo_weather 2023) 2023 ''Nairobi''\<rparr>"
proof -
  let ?cfg = "demo_cfg ''barley'' [(''medium'', sc_off)]"
  have "map_of CROP_OPTIONS (crop ?cfg) \<noteq> None"
    by (simp add: demo_cfg_def CROP_OPTIONS_def)
  moreover have "weather_provider demo_ext (lat (loc ?cfg)) (lon (loc ?cfg)) = Some demo_weather"
    by (simp add: demo_ext_def)
  moreover have "weather_data_of demo_weather (sd_year (start ?cfg)) \<noteq> []"
    by (simp add: demo_cfg_def demo_weather_data)
  moreover have "filter is_enabled (map snd (fert_scenarios ?cfg)) = []"
    by (simp add: demo_cfg_def sc_off_def is_enabled_def)
  ultimately show ?thesis
    using no_enabled_scenario_still_finishes [of ?cfg demo_ext demo_weather]
    by (simp add: demo_cfg_def)
qed

lemmas eval_defs = run_def make_env_def start_batch_def demo_defs worker_defs date_defs
  demo_weather_data demo_weather_def Let_def

text \<open>
  Claim C1, as the code has it. An exception of the engine block (lines 172-238) is
  caught by the handler of line 240: the loop goes on with the next scenario, with the
  results and the tables unchanged, the key printed and \<^verbatim>\<open>completed\<close> incremented. An
  exception raised while the inputs are built (lines 80-169, before the \<^verbatim>\<open>try\<close>) leaves
  the loop, and the run ends with the error signal.
\<close>

theorem engine_failure_skips_scenario_construction_failure_aborts:
  "(eng p w a = None \<longrightarrow> run_scenario eng w c p a key scn = Inl ExternalError) \<and>
   (is_enabled scn \<and> total_scenarios ev \<noteq> 0 \<and> build_inputs ev scn = Inr (p, a) \<and>
      run_scenario (env_engine ev) (env_weather ev) (env_crop ev) p a key scn = Inl e \<longrightarrow>
      (\<exists>st1. scenario_loop ev ((key, scn) # rest) st = scenario_loop ev rest st1 \<and>
             results st1 = results st \<and> dataframes st1 = dataframes st \<and>
             printed st1 = printed st @ [key] \<and> completed st1 = completed st + 1)) \<and>
   (is_enabled scn \<and> total_scenarios ev \<noteq> 0 \<and> build_inputs ev scn = Inl e \<longrightarrow>
      (\<exists>st1. scenario_loop ev ((key, scn) # rest) st = (Some e, st1) \<and>
             results st1 = results st \<and> dataframes st1 = dataframes st \<and>
             printed st1 = printed st)) \<and>
   (map_of CROP_OPTIONS (crop cfg) = Some cc \<and>
    weather_provider ext (lat (loc cfg)) (lon (loc cfg)) = Some w \<and>
    weather_data_of w (sd_year (start cfg)) \<noteq> [] \<and>
    scenario_loop (make_env ext cfg cc w) (fert_scenarios cfg) (start_batch cfg) = (Some e, st') \<longrightarrow>
      final (run ext cfg) = Error e)"
proof (intro conjI impI)
  assume "eng p w a = None"
  then show "run_scenario eng w c p a key scn = Inl ExternalError"
    by (simp add: run_scenario_def)
next
  assume h: "is_enabled scn \<and> total_scenarios ev \<noteq> 0 \<and> build_inputs ev scn = Inr (p, a) \<and>
      run_scenario (env_engine ev) (env_weather ev) (env_crop ev) p a key scn = Inl e"
  then have "scenario_step ev (key, scn) st =
      (None, (announce ev scn st)\<lparr>printed := printed st @ [key], completed := completed st + 1\<rparr>)"
    by (simp add: step_engine_fails)
  then show "\<exists>st1. scenario_loop ev ((key, scn) # rest) st = scenario_loop ev rest st1 \<and>
             results st1 = results st \<and> dataframes st1 = dataframes st \<and>
             printed st1 = printed st @ [key] \<and> completed st1 = completed st + 1"
    by (intro exI [of _ "(announce ev scn st)\<lparr>printed := printed st @ [key],
                                              completed := completed st + 1\<rparr>"])
       (simp add: announce_def)
next
  assume h: "is_enabled scn \<and> total_scenarios ev \<noteq> 0 \<and> build_inputs ev scn = Inl e"
  then have "scenario_step ev (key, scn) st = (Some e, announce ev scn st)"
    by (simp add: step_build_fails)
  then show "\<exists>st1. scenario_loop ev ((key, scn) # rest) st = (Some e, st1) \<and>
             results st1 = results st \<and> dataframes st1 = dataframes st \<and>
             printed st1 = printed st"
    by (intro exI [of _ "announce ev scn st"]) (simp add: announce_def)
next
  assume "map_of CROP_OPTIONS (crop cfg) = Some cc \<and>
    weather_provider ext (lat (loc cfg)) (lon (loc cfg)) = Some w \<and>
    weather_data_of w (sd_year (start cfg)) \<noteq> [] \<and>
    scenario_loop (make_env ext cfg cc w) (fert_scenarios cfg) (start_batch cfg) = (Some e, st')"
  then show "final (run ext cfg) = Error e"
    by (simp add: run_def Let_def)
qed

theorem engine_failure_skips_scenario_construction_failure_aborts_witness:
  "run demo_ext (demo_cfg ''barley'' [(''none'', sc_none), (''low'', sc_low), (''medium'', sc_off)]) =
     \<lparr>signals = [(5, ''Importing PCSE modules...''), (15, ''Loading weather for Nairobi...''),
                 (20, ''Running: No Fertilizer...''), (55, ''Running: Low (25 kg N/ha)...''),
                 (95, ''Finalizing results...''), (100, ''Done!'')],
      warnings = [''none''],
      final = Finished [demo_result] [''Low (25 kg N/ha)'' \<mapsto> demo_frame]
                (weather_data_of demo_weather 2023) 2023 ''Nairobi''\<rparr> \<and>
   final (run demo_ext (demo_cfg ''barley'' [(''late'', sc_far), (''low'', sc_low)])) =
     Error OverflowError"
proof -
  let ?cfg = "demo_cfg ''barley'' [(''late'', sc_far), (''low'', sc_low)]"
  let ?cc = "\<lparr>variety = ''Spring_barley_301'', season_days = 120, needs_vern_override = False\<rparr>"
  let ?ev = "make_env demo_ext ?cfg ?cc demo_weather"
  have cc: "map_of CROP_OPTIONS (crop ?cfg) = Some ?cc"
    by (simp add: demo_cfg_def CROP_OPTIONS_def)
  have wp: "weather_provider demo_ext (lat (loc ?cfg)) (lon (loc ?cfg)) = Some demo_weather"
    by (simp add: demo_ext_def)
  have wd: "weather_data_of demo_weather (sd_year (start ?cfg)) \<noteq> []"
    by (simp add: demo_cfg_def demo_weather_data)
  have en: "is_enabled sc_far" and tot: "total_scenarios ?ev \<noteq> 0"
    by (simp_all add: make_env_def demo_defs is_enabled_def)
  have bi: "build_inputs ?ev sc_far = Inl OverflowError"
    by (simp add: make_env_def demo_defs worker_defs date_defs)
  from engine_failure_skips_scenario_construction_failure_aborts
         [where scn = sc_far and ev = ?ev and e = OverflowError and key = "''late''"
            and rest = "[(''low'', sc_low)]" and st = "start_batch ?cfg"] en tot bi
  obtain st1 where
    "scenario_loop ?ev [(''late'', sc_far), (''low'', sc_low)] (start_batch ?cfg) =
       (Some OverflowError, st1)"
    by blast
  moreover have "fert_scenarios ?cfg = [(''late'', sc_far), (''low'', sc_low)]"
    by (simp add: demo_cfg_def)
  ultimately have "final (run demo_ext ?cfg) = Error OverflowError"
    using engine_failure_skips_scenario_construction_failure_aborts
         [where cfg = ?cfg and cc = ?cc and ext = demo_ext and w = demo_weather
            and e = OverflowError and st' = st1] cc wp wd
    by simp
  then show ?thesis by (simp add: demo_run_barley)
qed

text \<open>The claim as the specification states it fails: an application date out of the
  range of \<^verbatim>\<open>date\<close> in the first scenario ends the run; the second scenario is never
  run.\<close>

theorem construction_failure_aborts_batch:
  "run demo_ext (demo_cfg ''barley'' [(''late'', sc_far), (''low'', sc_low)]) =
     \<lparr>signals = [(5, ''Importing PCSE modules...''), (15, ''Loading weather for Nairobi...''),
                 (20, ''Running: Late...'')],
      warnings = [],
      final = Error OverflowError\<rparr>"
  by (simp add: eval_defs)


text \<open>A crop that needs the vernalisation override aborts the run when the crop data do
  not hold the overridden parameters.\<close>

lemma wheat_without_vernalisation_parameters_aborts:
  "run demo_ext (demo_cfg ''wheat'' [(''low'', sc_low)]) =
     \<lparr>signals = [(5, ''Importing PCSE modules...''), (15, ''Loading weather for Nairobi...''),
                 (20, ''Running: Low (25 kg N/ha)...'')],
      warnings = [],
      final = Error PCSEError\<rparr>"
  by (simp add: eval_defs)

section \<open>Root and tuber crops\<close>

text \<open>For potato, cassava and sweetpotato no iteration appends a result, so a finished
  run has none.\<close>

lemma run_scenario_root_no_result:
  assumes "c \<in> set ROOT_CROPS" and "run_scenario eng w c p a key scn = Inr (res, f)"
  shows "res = None"
  using assms
  by (auto simp: run_scenario_def Let_def split: option.splits list.splits prod.splits)

lemma step_root_results:
  assumes "env_crop ev \<in> set ROOT_CROPS" and "scenario_step ev (key, scn) st = (err, st')"
  shows "results st' = results st"
  using step_shape [of scn ev key st] assms
  by (elim disjE conjE exE) (auto simp: announce_def dest: run_scenario_root_no_result)

lemma loop_root_results:
  assumes "env_crop ev \<in> set ROOT_CROPS" and "scenario_loop ev kss st = (err, st')"
  shows "results st' = results st"
  using assms(2)
proof (induction kss arbitrary: st)
  case Nil
  then show ?case by simp
next
  case (Cons ks rest)
  obtain key scn where ks: "ks = (key, scn)" by (cases ks)
  obtain x st1 where step: "scenario_step ev (key, scn) st = (x, st1)"
    by (cases "scenario_step ev (key, scn) st")
  from step_root_results [OF assms(1) step] have r1: "results st1 = results st" .
  show ?case
  proof (cases x)
    case None
    with step ks Cons.prems have "scenario_loop ev rest st1 = (err, st')" by simp
    from Cons.IH [OF this] r1 show ?thesis by simp
  next
    case (Some e)
    with step ks Cons.prems have "st' = st1" by simp
    with r1 show ?thesis by simp
  qed
qed

lemma root_crop_run_has_no_results:
  assumes "crop cfg \<in> set ROOT_CROPS" and "final (run ext cfg) = Finished rs dfs wd y n"
  shows "rs = []"
proof -
  from run_Finished [OF assms(2)] obtain cc w st where
    loop: "scenario_loop (make_env ext cfg cc w) (fert_scenarios cfg) (start_batch cfg) = (None, st)"
    and rs: "rs = results st" by blast
  have "env_crop (make_env ext cfg cc w) \<in> set ROOT_CROPS"
    using assms(1) by (simp add: make_env_def Let_def)
  from loop_root_results [OF this loop] rs show ?thesis
    by (simp add: start_batch_def)
qed

text \<open>
  Claim C2, evaluated for potato. The engine returns three output rows and a summary;
  the frame stored for the scenario has neither the \<^verbatim>\<open>GDD\<close> nor the \<^verbatim>\<open>daily_GDD\<close>
  column, since the GDD block sits in the \<^verbatim>\<open>else\<close> branch of the crop test.
\<close>

theorem potato_run_has_no_gdd_columns:
  "run demo_ext (demo_cfg ''potato'' [(''low'', sc_low)]) =
     \<lparr>signals = [(5, ''Importing PCSE modules...''), (15, ''Loading weather for Nairobi...''),
                 (20, ''Running: Low (25 kg N/ha)...''),
                 (95, ''Finalizing results...''), (100, ''Done!'')],
      warnings = [],
      final = Finished [] [''Low (25 kg N/ha)'' \<mapsto> \<lparr>rows = demo_output, GDD = None, daily_GDD = None\<rparr>]
                (weather_data_of demo_weather 2023) 2023 ''Nairobi''\<rparr>"
  by (simp add: eval_defs)

text \<open>
  Claim C3, evaluated for potato. Of two enabled scenarios the engine raises for the
  first and returns a summary for the second; the run finishes with an empty result
  list, where the same inputs give one result for barley.
\<close>

theorem potato_batch_has_no_results:
  "final (run demo_ext (demo_cfg ''potato'' [(''none'', sc_none), (''low'', sc_low)])) =
     Finished [] [''Low (25 kg N/ha)'' \<mapsto> \<lparr>rows = demo_output, GDD = None, daily_GDD = None\<rparr>]
       (weather_data_of demo_weather 2023) 2023 ''Nairobi'' \<and>
   warnings (run demo_ext (demo_cfg ''potato'' [(''none'', sc_none), (''low'', sc_low)])) = [''none''] \<and>
   final (run demo_ext (demo_cfg ''barley'' [(''none'', sc_none), (''low'', sc_low)])) =
     Finished [demo_result] [''Low (25 kg N/ha)'' \<mapsto> demo_frame]
       (weather_data_of demo_weather 2023) 2023 ''Nairobi''"
  by (simp add: eval_defs demo_result_def demo_frame_def)

end
